theory Spec2Isabelle
  imports Complex_Main
begin

section \<open>Data model\<close>

text \<open>
  Coordinates are numpy float64 values in the source. They are modelled as real numbers:
  every arithmetic operation is taken to be exact, so rounding, overflow to infinity and
  NaN are outside the model. A 3-vector (a numpy array of shape (3,)) is a triple, a 4x4
  transformation matrix is four rows of four entries.
\<close>

type_synonym vec3 = "real \<times> real \<times> real"
type_synonym vec4 = "real \<times> real \<times> real \<times> real"
type_synonym mat4 = "vec4 \<times> vec4 \<times> vec4 \<times> vec4"

datatype error =
    IndexError
  | AttributeError
  | NameError
  | ValueError
  | FileNotFoundError
  | JSONDecodeError

text \<open>
  Open3D geometries. A point cloud has a point array and a colour array; a line set has a
  point array and a list of index pairs. Normals are an attribute that no operation
  modelled here reads, so they are not tracked, and \<^verbatim>\<open>estimate_normals\<close> leaves the
  model of a cloud as it is.
\<close>

record geometry3d =
  points :: "vec3 list"

record point_cloud = geometry3d +
  colors :: "vec3 list"

record line_set = geometry3d +
  lines :: "(nat \<times> nat) list"

definition empty_cloud :: point_cloud where
  "empty_cloud = \<lparr>points = [], colors = []\<rparr>"

definition empty_line_set :: line_set where
  "empty_line_set = \<lparr>points = [], lines = []\<rparr>"

definition vec_add :: "vec3 \<Rightarrow> vec3 \<Rightarrow> vec3" where
  "vec_add a b = (case a of (a0, a1, a2) \<Rightarrow> case b of (b0, b1, b2) \<Rightarrow>
     (a0 + b0, a1 + b1, a2 + b2))"

definition vec_sub :: "vec3 \<Rightarrow> vec3 \<Rightarrow> vec3" where
  "vec_sub a b = (case a of (a0, a1, a2) \<Rightarrow> case b of (b0, b1, b2) \<Rightarrow>
     (a0 - b0, a1 - b1, a2 - b2))"

definition vec_dot :: "vec3 \<Rightarrow> vec3 \<Rightarrow> real" where
  "vec_dot a b = (case a of (a0, a1, a2) \<Rightarrow> case b of (b0, b1, b2) \<Rightarrow>
     a0 * b0 + a1 * b1 + a2 * b2)"

text \<open>The Euclidean distance of two positions.\<close>

definition dist3 :: "vec3 \<Rightarrow> vec3 \<Rightarrow> real" where
  "dist3 a b = sqrt (vec_dot (vec_sub a b) (vec_sub a b))"

text \<open>
  Open3D's \<^verbatim>\<open>transform\<close> of a geometry: every point is extended by 1, multiplied by
  the matrix and divided by the fourth coordinate of the product.
\<close>

definition row_dot :: "vec4 \<Rightarrow> vec3 \<Rightarrow> real" where
  "row_dot r p = (case r of (a, b, c, d) \<Rightarrow> case p of (px, py, pz) \<Rightarrow>
     a * px + b * py + c * pz + d * 1)"

definition transform_point :: "mat4 \<Rightarrow> vec3 \<Rightarrow> vec3" where
  "transform_point T p = (case T of (r0, r1, r2, r3) \<Rightarrow>
     (row_dot r0 p / row_dot r3 p, row_dot r1 p / row_dot r3 p, row_dot r2 p / row_dot r3 p))"

definition transform :: "mat4 \<Rightarrow> 'a geometry3d_scheme \<Rightarrow> 'a geometry3d_scheme" where
  "transform T g = g\<lparr>points := map (transform_point T) (points g)\<rparr>"

text \<open>\<^verbatim>\<open>get_center\<close>: the mean of the points, the zero vector for no points.\<close>

definition get_center :: "'a geometry3d_scheme \<Rightarrow> vec3" where
  "get_center g =
     (if points g = [] then (0, 0, 0)
      else (sum_list (map fst (points g)) / real (length (points g)),
            sum_list (map (fst \<circ> snd) (points g)) / real (length (points g)),
            sum_list (map (snd \<circ> snd) (points g)) / real (length (points g))))"

text \<open>The numpy slice \<^verbatim>\<open>T[:3,3]\<close>: the translation column.\<close>

definition translation_column :: "mat4 \<Rightarrow> vec3" where
  "translation_column T = (case T of ((a0, b0, c0, d0), (a1, b1, c1, d1), (a2, b2, c2, d2), r3) \<Rightarrow>
     (d0, d1, d2))"

definition bottom_row :: "mat4 \<Rightarrow> vec4" where
  "bottom_row T = (case T of (r0, r1, r2, r3) \<Rightarrow> r3)"

text \<open>
  \<^verbatim>\<open>a += b\<close> on point clouds: nothing happens for an empty \<open>b\<close>; otherwise the
  points are appended, and the colours too when both sides have colours (or the left
  side has no points), else the colours are dropped.
\<close>

definition has_colors :: "point_cloud \<Rightarrow> bool" where
  "has_colors c = (points c \<noteq> [] \<and> length (colors c) = length (points c))"

definition cloud_add :: "point_cloud \<Rightarrow> point_cloud \<Rightarrow> point_cloud" where
  "cloud_add a b =
     (if points b = [] then a
      else \<lparr>points = points a @ points b,
            colors = (if (points a = [] \<or> has_colors a) \<and> has_colors b
                      then take (length (points a)) (colors a) @ colors b else [])\<rparr>)"

definition paint_uniform_color :: "vec3 \<Rightarrow> point_cloud \<Rightarrow> point_cloud" where
  "paint_uniform_color c g = g\<lparr>colors := replicate (length (points g)) c\<rparr>"

text \<open>The result of a registration, as the matchers return it.\<close>

record registration =
  transformation :: mat4
  fitness :: real
  inlier_rmse :: real

text \<open>The lists that the plotter collects, one entry per step.\<close>

record plotter =
  timeUsages :: "real list"
  rmses :: "real list"
  fitnesses :: "real list"
  distances :: "real list"

definition empty_plot :: plotter where
  "empty_plot = \<lparr>timeUsages = [], rmses = [], fitnesses = [], distances = []\<rparr>"

section \<open>pcapReader.py: the single-file frame source\<close>

text \<open>
  A decoded scan as \<open>next_frame\<close> sees it: \<open>scan_xyz\<close> is
  \<^verbatim>\<open>self.xyzLut(scan).reshape((-1, 3))\<close> and \<open>scan_colors\<close> is
  \<^verbatim>\<open>colorize(normalize(scan.field(self.channels[1]))).reshape((-1, 3))\<close>; the
  look-up table, the normalisation and the colour map are library code.
\<close>

record lidar_scan =
  scan_xyz :: "vec3 list"
  scan_colors :: "vec3 list"

text \<open>
  The reader: \<open>scans\<close> is what the iterator \<^verbatim>\<open>self.scans\<close> has not yet
  delivered.
\<close>

record pcap_reader =
  pcap_path :: string
  scans :: "lidar_scan list"
  skip_frames :: nat
  max_distance :: "real option"

text \<open>
  \<^verbatim>\<open>skip_and_get\<close>: \<open>skip_frames\<close> calls of \<^verbatim>\<open>next\<close> and one more whose
  value is returned; StopIteration anywhere gives None, with the iterator used up.
\<close>

definition skip_and_get :: "nat \<Rightarrow> lidar_scan list \<Rightarrow> lidar_scan option \<times> lidar_scan list" where
  "skip_and_get k it =
     (if k < length it then (Some (it ! k), drop (Suc k) it) else (None, []))"

text \<open>
  numpy boolean-mask indexing \<^verbatim>\<open>cloud[mask]\<close>: the rows of \<open>cloud\<close> whose mask
  entry is True, in order; a mask of another length raises IndexError.
\<close>

definition bool_index :: "'a list \<Rightarrow> bool list \<Rightarrow> error + 'a list" where
  "bool_index cloud msk =
     (if length msk = length cloud
      then Inr (map fst (filter snd (zip cloud msk)))
      else Inl IndexError)"

definition vehicle_mask :: "vec3 \<Rightarrow> bool" where
  "vehicle_mask p = (case p of (px, py, pz) \<Rightarrow>
     ((px > 2 / 10 \<or> px < - (22 / 10)) \<or> (py > 7 / 10 \<or> py < - (7 / 10)))
       \<or> (pz > 3 / 10 \<or> pz < - 2))"

definition invalid_mask :: "vec3 \<Rightarrow> bool" where
  "invalid_mask p = (case p of (px, py, pz) \<Rightarrow> px \<noteq> 0 \<and> py \<noteq> 0 \<and> pz \<noteq> 0)"

definition distance_mask :: "real \<Rightarrow> vec3 \<Rightarrow> bool" where
  "distance_mask meters p = (case p of (px, py, pz) \<Rightarrow>
     sqrt (px ^ 2 + py ^ 2 + pz ^ 2) \<le> meters)"

text \<open>
  The three filters. The second argument is the source's optional \<open>cloud\<close>
  (None means the frame itself).
\<close>

definition remove_vehicle :: "vec3 list \<Rightarrow> 'a list \<Rightarrow> error + 'a list" where
  "remove_vehicle frame cloud = bool_index cloud (map vehicle_mask frame)"

definition remove_invalid :: "vec3 list \<Rightarrow> 'a list \<Rightarrow> error + 'a list" where
  "remove_invalid frame cloud = bool_index cloud (map invalid_mask frame)"

definition remove_outside_distance :: "real \<Rightarrow> vec3 list \<Rightarrow> 'a list \<Rightarrow> error + 'a list" where
  "remove_outside_distance meters frame cloud = bool_index cloud (map (distance_mask meters) frame)"

text \<open>
  \<^verbatim>\<open>PcapReader.next_frame\<close>. The colour array is filtered first, with the mask
  computed from the still unfiltered points, then the points themselves.
\<close>

definition next_frame :: "bool \<Rightarrow> pcap_reader \<Rightarrow> error + (point_cloud option \<times> pcap_reader)" where
  "next_frame rv rd =
     (case skip_and_get (skip_frames rd) (scans rd) of
        (None, it) \<Rightarrow> Inr (None, rd\<lparr>scans := it\<rparr>)
      | (Some scan, it) \<Rightarrow>
          (let xyz = scan_xyz scan; color_img = scan_colors scan in
           case (if rv then remove_vehicle xyz color_img else remove_invalid xyz color_img) of
             Inl e \<Rightarrow> Inl e
           | Inr color_img1 \<Rightarrow>
          (case (if rv then remove_vehicle xyz xyz else remove_invalid xyz xyz) of
             Inl e \<Rightarrow> Inl e
           | Inr xyz1 \<Rightarrow>
          (case max_distance rd of
             None \<Rightarrow> Inr (Some \<lparr>points = xyz1, colors = color_img1\<rparr>, rd\<lparr>scans := it\<rparr>)
           | Some d \<Rightarrow>
              (case remove_outside_distance d xyz1 color_img1 of
                 Inl e \<Rightarrow> Inl e
               | Inr color_img2 \<Rightarrow>
              (case remove_outside_distance d xyz1 xyz1 of
                 Inl e \<Rightarrow> Inl e
               | Inr xyz2 \<Rightarrow>
                  Inr (Some \<lparr>points = xyz2, colors = color_img2\<rparr>, rd\<lparr>scans := it\<rparr>)))))))"

text \<open>The row filter that \<open>next_frame\<close> applies as a whole.\<close>

definition keep_row :: "bool \<Rightarrow> real option \<Rightarrow> vec3 \<Rightarrow> bool" where
  "keep_row rv md p =
     ((if rv then vehicle_mask p else invalid_mask p)
      \<and> (case md of None \<Rightarrow> True | Some d \<Rightarrow> distance_mask d p))"

section \<open>serialPcapReader.py: the multi-segment frame source\<close>

record serial_pcap_reader =
  readers :: "pcap_reader list"
  current_reader_index :: nat
  serial_max_distance :: "real option"
  serial_pcap_path :: "string option"

definition set_metadata :: "serial_pcap_reader \<Rightarrow> serial_pcap_reader" where
  "set_metadata s =
     s\<lparr>serial_pcap_path :=
         (if current_reader_index s \<ge> length (readers s) then None
          else Some (pcap_path (readers s ! current_reader_index s)))\<rparr>"

definition next_reader :: "serial_pcap_reader \<Rightarrow> serial_pcap_reader" where
  "next_reader s = set_metadata (s\<lparr>current_reader_index := current_reader_index s + 1\<rparr>)"

text \<open>
  \<^verbatim>\<open>SerialPcapReader.next_frame\<close>: the current reader gets the serial reader's
  \<open>max_distance\<close> and is asked for a frame; on None the index moves on and the method
  calls itself. The recursion ends, since the index grows up to the number of readers;
  the interpreter's limit on the depth of recursion is outside the model.
\<close>

function serial_next_frame ::
  "bool \<Rightarrow> serial_pcap_reader \<Rightarrow> error + (point_cloud option \<times> serial_pcap_reader)" where
  "serial_next_frame rv s =
     (if current_reader_index s \<ge> length (readers s) then Inr (None, s)
      else
        (case next_frame rv
                ((readers s ! current_reader_index s)\<lparr>max_distance := serial_max_distance s\<rparr>) of
           Inl e \<Rightarrow> Inl e
         | Inr (None, rd') \<Rightarrow>
             serial_next_frame rv
               (next_reader (s\<lparr>readers := (readers s)[current_reader_index s := rd']\<rparr>))
         | Inr (Some frame, rd') \<Rightarrow>
             Inr (Some frame, s\<lparr>readers := (readers s)[current_reader_index s := rd']\<rparr>)))"
  by pat_completeness auto
termination
  by (relation "measure (\<lambda>(rv, s). length (readers s) - current_reader_index s)")
     (auto simp: next_reader_def set_metadata_def)

text \<open>A reader is exhausted when it cannot deliver another frame.\<close>

definition exhausted :: "pcap_reader \<Rightarrow> bool" where
  "exhausted rd = (length (scans rd) \<le> skip_frames rd)"

definition wf_scan :: "lidar_scan \<Rightarrow> bool" where
  "wf_scan sc = (length (scan_xyz sc) = length (scan_colors sc))"

definition wf_reader :: "pcap_reader \<Rightarrow> bool" where
  "wf_reader rd = list_all wf_scan (scans rd)"

section \<open>sbetParser.py: positions of the independent source\<close>

text \<open>
  \<^verbatim>\<open>SbetRow\<close>. The attributes \<open>x\<close> and \<open>y\<close> of the source (the projected
  coordinates) are \<open>x_utm\<close> and \<open>y_utm\<close> here.
\<close>

record sbet_row =
  sow :: real
  lat :: real
  lon :: real
  alt :: real
  age :: real
  index :: nat
  x_utm :: real
  y_utm :: real
  heading :: real

text \<open>\<^verbatim>\<open>SbetRow.translate\<close> subtracts the vector from the position.\<close>

definition translate :: "vec3 \<Rightarrow> sbet_row \<Rightarrow> sbet_row" where
  "translate t c = (case t of (t0, t1, t2) \<Rightarrow>
     c\<lparr>x_utm := x_utm c - t0, y_utm := y_utm c - t1, alt := alt c - t2\<rparr>)"

section \<open>navigator.py: relative mode\<close>

text \<open>
  What the navigators call but do not define, for a reader state of type \<open>'r\<close>:
  \<^item> \<open>readFrame\<close>, \<open>nextFrame\<close> and \<open>preparedClouds\<close> (the length of the reader's
    list of that name) are the reader interface that navigator.py uses; the reader in
    pcapReader.py has other names, so the three are parameters;
  \<^item> \<open>matcher\<close> is \<^verbatim>\<open>self.matcher.match(source, target)\<close> of navigator.py and
    \<open>matcher_init\<close> is \<^verbatim>\<open>self.matcher.match(frame, full_cloud, 10, None)\<close> of
    absoluteNavigator.py;
  \<^item> \<open>voxel_down_sample\<close> is Open3D's method, with the voxel size first;
  \<^item> \<open>elapsed\<close> is the time the clock measured for aligning the two clouds;
  \<^item> \<open>reader_next_frame\<close>, \<open>get_coordinates\<close> and \<open>skip_initial_frames\<close> are what
    absoluteNavigator.py calls on the reader that its base class sets up.
\<close>

record 'r environment =
  readFrame :: "nat \<Rightarrow> bool \<Rightarrow> 'r \<Rightarrow> point_cloud option \<times> 'r"
  nextFrame :: "bool \<Rightarrow> 'r \<Rightarrow> point_cloud option \<times> 'r"
  preparedClouds :: "'r \<Rightarrow> nat"
  matcher :: "point_cloud \<Rightarrow> point_cloud \<Rightarrow> registration"
  matcher_init :: "point_cloud \<Rightarrow> point_cloud \<Rightarrow> nat \<Rightarrow> registration"
  voxel_down_sample :: "real \<Rightarrow> point_cloud \<Rightarrow> point_cloud"
  elapsed :: "point_cloud \<Rightarrow> point_cloud \<Rightarrow> real"
  reader_next_frame :: "bool \<Rightarrow> 'r \<Rightarrow> error + (point_cloud option \<times> 'r)"
  get_coordinates :: "bool \<Rightarrow> 'r \<Rightarrow> sbet_row list"
  skip_initial_frames :: "'r \<Rightarrow> 'r"

text \<open>The attributes that both navigators have.\<close>

record 'r navigator =
  reader :: 'r
  frame_limit :: int
  voxel_size :: real
  movements :: "vec3 list"
  plot :: plotter

record 'r lidar_navigator = "'r navigator" +
  preview :: bool
  movementPath :: line_set
  mergedFrame :: "point_cloud option"
  previousFrame :: "point_cloud option"

text \<open>
  \<^verbatim>\<open>alignFrame\<close>: the movement is the centre of the one-point cloud \<open>[[0,0,0]]\<close>
  after the transformation.
\<close>

definition alignFrame ::
  "'r environment \<Rightarrow> point_cloud \<Rightarrow> point_cloud \<Rightarrow> mat4 \<times> vec3 \<times> registration" where
  "alignFrame env source target =
     (let reg = matcher env source target;
          movement = get_center (transform (transformation reg)
                                   \<lparr>points = [(0, 0, 0)], colors = []\<rparr>)
      in (transformation reg, movement, reg))"

text \<open>
  \<^verbatim>\<open>mergeNextFrame\<close>. A frame of None ends the loop. The attributes
  \<open>previousFrame\<close> and \<open>mergedFrame\<close> hold what \<open>readFrame\<close> returned: the call
  \<^verbatim>\<open>self.mergedFrame.transform\<close> raises AttributeError on None, and a step with a
  \<open>previousFrame\<close> of None, which \<open>navigateThroughFile\<close> never starts, is an error
  as well. The visualizer only shows the state and is left out.
\<close>

definition mergeNextFrame ::
  "'r environment \<Rightarrow> 'r lidar_navigator \<Rightarrow> error + (bool \<times> 'r lidar_navigator)" where
  "mergeNextFrame env st =
     (case nextFrame env True (reader st) of
        (None, r') \<Rightarrow> Inr (False, st\<lparr>reader := r'\<rparr>)
      | (Some frame, r') \<Rightarrow>
          (case previousFrame st of
             None \<Rightarrow> Inl AttributeError
           | Some previous \<Rightarrow>
          (case alignFrame env previous frame of (T, movement, reg) \<Rightarrow>
           let plot1 = (plot st)
                 \<lparr>timeUsages := timeUsages (plot st) @ [elapsed env previous frame],
                  rmses := rmses (plot st) @ [inlier_rmse reg],
                  fitnesses := fitnesses (plot st) @ [fitness reg],
                  distances := distances (plot st) @ [sqrt (vec_dot movement movement)]\<rparr>;
               movements1 = map (\<lambda>m. vec_add m movement) (movements st) @ [movement];
               path1 = transform T
                 ((movementPath st)\<lparr>points := points (movementPath st) @ [(0, 0, 0)]\<rparr>);
               path2 = (if length movements1 \<ge> 2
                        then path1\<lparr>lines := lines path1
                                 @ [(length movements1 - 2, length movements1 - 1)]\<rparr>
                        else path1)
           in (case mergedFrame st of
                 None \<Rightarrow> Inl AttributeError
               | Some mf \<Rightarrow>
                   Inr (True, st\<lparr>reader := r',
                                 plot := plot1,
                                 movements := movements1,
                                 movementPath := path2,
                                 mergedFrame := Some (voxel_down_sample env (voxel_size st)
                                                  (cloud_add (transform T mf) frame)),
                                 previousFrame := Some frame\<rparr>)))))"

text \<open>
  The loop of \<^verbatim>\<open>navigateThroughFile\<close>:
  \<^verbatim>\<open>while self.mergeNextFrame(plot): ... if limit reached: break\<close>.
  Nothing bounds the number of frames a reader delivers, so the loop is a partial
  function: None stands for a run that never ends.
\<close>

partial_function (option) merge_loop ::
  "'r environment \<Rightarrow> 'r lidar_navigator \<Rightarrow> (error + 'r lidar_navigator) option" where
  "merge_loop env st =
     (case mergeNextFrame env st of
        Inl e \<Rightarrow> Some (Inl e)
      | Inr (merged, st') \<Rightarrow>
          (if \<not> merged then Some (Inr st')
           else if frame_limit st' > 1 \<and> int (preparedClouds env (reader st')) \<ge> frame_limit st'
           then Some (Inr st')
           else merge_loop env st'))"

text \<open>
  \<^verbatim>\<open>navigateThroughFile\<close> up to the end of the loop; what follows (summary, files,
  the blocking view) only reads the state.
\<close>

definition navigateThroughFile ::
  "'r environment \<Rightarrow> 'r lidar_navigator \<Rightarrow> (error + 'r lidar_navigator) option" where
  "navigateThroughFile env st =
     (case readFrame env 0 True (reader st) of (merged, r1) \<Rightarrow>
      case readFrame env 0 True r1 of (previous, r2) \<Rightarrow>
        (if previous = None then Some (Inl AttributeError)
         else merge_loop env
                (st\<lparr>reader := r2, movements := [], plot := empty_plot,
                    movementPath := empty_line_set,
                    mergedFrame := merged, previousFrame := previous\<rparr>)))"

text \<open>
  A reader state yields the frames \<open>fs\<close> when successive calls of \<open>nf\<close> return them
  in this order and then None.
\<close>

fun yields :: "('r \<Rightarrow> point_cloud option \<times> 'r) \<Rightarrow> 'r \<Rightarrow> point_cloud list \<Rightarrow> bool" where
  "yields nf r [] = (fst (nf r) = None)"
| "yields nf r (f # fs) = (fst (nf r) = Some f \<and> yields nf (snd (nf r)) fs)"

text \<open>
  Modelled from the spec: the reader whose methods \<^verbatim>\<open>readFrame\<close> and
  \<^verbatim>\<open>nextFrame\<close> and whose list \<^verbatim>\<open>preparedClouds\<close> navigator.py uses is
  not among the sources. The specification's frame source delivers the frames of the
  capture in order, each of them once, and then signals the end of the stream, and the
  engine seeds its reference with the first frame. Accordingly \<open>pending\<close> holds the
  frames not yet delivered, \<open>prepared\<close> (the list \<^verbatim>\<open>preparedClouds\<close>, which the
  frame limit of \<^verbatim>\<open>navigateThroughFile\<close> counts) holds the delivered ones;
  \<open>cached_nextFrame\<close> delivers the next frame and keeps it, and \<open>cached_readFrame\<close>
  delivers frames until the one with the number asked for is among the kept ones.
\<close>

record frame_reader =
  pending :: "point_cloud list"
  prepared :: "point_cloud list"

definition cached_nextFrame :: "bool \<Rightarrow> frame_reader \<Rightarrow> point_cloud option \<times> frame_reader" where
  "cached_nextFrame rv r =
     (case pending r of
        [] \<Rightarrow> (None, r)
      | f # fs \<Rightarrow> (Some f, r\<lparr>pending := fs, prepared := prepared r @ [f]\<rparr>))"

fun fill_prepared ::
  "nat \<Rightarrow> point_cloud list \<Rightarrow> point_cloud list
     \<Rightarrow> point_cloud option \<times> point_cloud list \<times> point_cloud list" where
  "fill_prepared num [] prep =
     (if num < length prep then Some (prep ! num) else None, [], prep)"
| "fill_prepared num (f # fs) prep =
     (if num < length prep then (Some (prep ! num), f # fs, prep)
      else fill_prepared num fs (prep @ [f]))"

definition cached_readFrame ::
  "nat \<Rightarrow> bool \<Rightarrow> frame_reader \<Rightarrow> point_cloud option \<times> frame_reader" where
  "cached_readFrame num rv r =
     (case fill_prepared num (pending r) (prepared r) of
        (res, pend, prep) \<Rightarrow> (res, r\<lparr>pending := pend, prepared := prep\<rparr>))"

text \<open>An environment uses this reader when its three reader operations are these.\<close>

definition uses_cached_reader :: "frame_reader environment \<Rightarrow> bool" where
  "uses_cached_reader env =
     (readFrame env = cached_readFrame \<and> nextFrame env = cached_nextFrame
      \<and> preparedClouds env = (\<lambda>r. length (prepared r)))"

section \<open>absoluteNavigator.py: absolute mode\<close>

subsection \<open>Loading the reference cloud\<close>

text \<open>
  The files that \<^verbatim>\<open>load_point_cloud\<close> reads and writes: a point-cloud file holds a
  cloud, a sidecar file holds the JSON object with the keys \<open>offset\<close> and \<open>cloud\<close>.
  Every write succeeds, and reading a file back returns what was written.
\<close>

datatype stored_file = PointCloudFile point_cloud | SidecarFile vec3 string

type_synonym file_system = "string \<Rightarrow> stored_file option"

definition endswith :: "string \<Rightarrow> string \<Rightarrow> bool" where
  "endswith s suf = (length suf \<le> length s \<and> drop (length s - length suf) s = suf)"

text \<open>
  \<^verbatim>\<open>o3d.io.read_point_cloud\<close> returns an empty cloud for a file that is missing or
  is not a point cloud.
\<close>

definition read_point_cloud :: "file_system \<Rightarrow> string \<Rightarrow> point_cloud" where
  "read_point_cloud fs path =
     (case fs path of Some (PointCloudFile c) \<Rightarrow> c | _ \<Rightarrow> empty_cloud)"

text \<open>The two paths that the source writes to (its strings hold single backslashes).\<close>

definition save_directory :: string where
  "save_directory =
     ''G:'' @ [CHR 0x5C] @ ''2021-10-21 - Kartverket, LIDAR'' @ [CHR 0x5C] @ ''validation''
       @ [CHR 0x5C] @ ''Lillehammer'' @ [CHR 0x5C] @ ''Punktsky_211021'' @ [CHR 0x5C]"

definition saved_pcd_path :: string where
  "saved_pcd_path = save_directory @ ''assembled-moved-with-normals.pcd''"

definition saved_cloud_path :: string where
  "saved_cloud_path = save_directory @ ''assembled-moved-with-normals.cloud''"

text \<open>\<^verbatim>\<open>np.amin(points, axis=0)\<close> and \<^verbatim>\<open>np.amax\<close>, for a non-empty array.\<close>

definition amin :: "vec3 list \<Rightarrow> vec3" where
  "amin ps = (fold min (map fst (tl ps)) (fst (hd ps)),
              fold min (map (fst \<circ> snd) (tl ps)) (fst (snd (hd ps))),
              fold min (map (snd \<circ> snd) (tl ps)) (snd (snd (hd ps))))"

definition amax :: "vec3 list \<Rightarrow> vec3" where
  "amax ps = (fold max (map fst (tl ps)) (fst (hd ps)),
              fold max (map (fst \<circ> snd) (tl ps)) (fst (snd (hd ps))),
              fold max (map (snd \<circ> snd) (tl ps)) (snd (snd (hd ps))))"

definition vec_half :: "vec3 \<Rightarrow> vec3" where
  "vec_half a = (case a of (a0, a1, a2) \<Rightarrow> (a0 / 2, a1 / 2, a2 / 2))"

text \<open>
  \<^verbatim>\<open>load_point_cloud\<close> returns the attributes it sets, \<open>full_point_cloud_offset\<close>
  and \<open>full_cloud\<close>, and the files as it leaves them. A raw cloud without points makes
  \<^verbatim>\<open>np.amin\<close> raise ValueError.
\<close>

definition load_point_cloud ::
  "string \<Rightarrow> file_system \<Rightarrow> error + ((vec3 \<times> point_cloud) \<times> file_system)" where
  "load_point_cloud path fs =
     (if endswith path ''.cloud'' then
        (case fs path of
           None \<Rightarrow> Inl FileNotFoundError
         | Some (PointCloudFile c) \<Rightarrow> Inl JSONDecodeError
         | Some (SidecarFile offset cloud_file) \<Rightarrow>
             Inr ((offset, paint_uniform_color (3 / 10, 6 / 10, 1) (read_point_cloud fs cloud_file)),
                  fs))
      else
        (let ps = points (read_point_cloud fs path) in
         if ps = [] then Inl ValueError
         else
           (let offset = vec_add (amin ps) (vec_half (vec_sub (amax ps) (amin ps)));
                moved = \<lparr>points = map (\<lambda>p. vec_sub p offset) ps, colors = []\<rparr>;
                fs1 = fs(saved_pcd_path := Some (PointCloudFile moved));
                fs2 = fs1(saved_cloud_path := Some (SidecarFile offset saved_pcd_path))
            in Inr ((offset, paint_uniform_color (3 / 10, 6 / 10, 1) moved), fs2))))"

subsection \<open>The navigator\<close>

text \<open>
  The attributes of \<^verbatim>\<open>AbsoluteLidarNavigator\<close>. \<open>actual_movement_path\<close> is None as
  long as the attribute has not been set, \<open>vis\<close> tells whether \<^verbatim>\<open>self.vis\<close> is a
  visualizer (and not None); \<open>remove_vehicle_arg\<close> is the attribute
  \<^verbatim>\<open>self.remove_vehicle\<close>.
\<close>

record 'r absolute_lidar_navigator = "'r navigator" +
  remove_vehicle_arg :: bool
  preview_always :: bool
  full_cloud :: point_cloud
  full_point_cloud_offset :: vec3
  movement_path :: line_set
  actual_coordinates :: "sbet_row list"
  current_coordinate :: "sbet_row option"
  initial_coordinate :: "sbet_row option"
  actual_movement_path :: "line_set option"
  vis :: bool
  merged_frame :: point_cloud
  merged_frame_is_dirty :: bool
  downsample_timer :: int
  downsample_cloud_after_frames :: int
  previous_transformation :: "mat4 option"

text \<open>
  Modelled from the spec: \<^verbatim>\<open>ensure_merged_frame_is_downsampled\<close> is a method of the
  base class in navigatorBase.py, which is not among the sources. The specification asks
  that the model be compacted before it is handed to the observers even if the periodic
  trigger has not fired; the flag \<open>merged_frame_is_dirty\<close>, which
  \<^verbatim>\<open>merge_next_frame\<close> sets at every fusion, says whether a fusion has happened
  since the last compaction.
\<close>

definition ensure_merged_frame_is_downsampled ::
  "'r environment \<Rightarrow> 'r absolute_lidar_navigator \<Rightarrow> 'r absolute_lidar_navigator" where
  "ensure_merged_frame_is_downsampled env st =
     (if merged_frame_is_dirty st
      then st\<lparr>merged_frame := voxel_down_sample env (voxel_size st) (merged_frame st),
              merged_frame_is_dirty := False\<rparr>
      else st)"

text \<open>
  The loop of \<^verbatim>\<open>navigate_through_file\<close> over the positions of the independent
  source: each is translated by the offset of the reference cloud and then by
  \<open>[0, 0, 40]\<close>.
\<close>

definition translate_actual_coordinates :: "vec3 \<Rightarrow> sbet_row list \<Rightarrow> sbet_row list" where
  "translate_actual_coordinates offset cs =
     map (\<lambda>c. translate (0, 0, 40) (translate offset c)) cs"

text \<open>
  The block of \<^verbatim>\<open>navigate_through_file\<close> under \<^verbatim>\<open>if args.sbet is not None\<close>;
  indexing an empty list of coordinates raises IndexError.
\<close>

definition read_actual_coordinates ::
  "'r environment \<Rightarrow> 'r absolute_lidar_navigator \<Rightarrow> error + 'r absolute_lidar_navigator" where
  "read_actual_coordinates env st =
     (let cs = translate_actual_coordinates (full_point_cloud_offset st)
                 (get_coordinates env False (reader st))
      in case cs of
           [] \<Rightarrow> Inl IndexError
         | c # _ \<Rightarrow>
             Inr (st\<lparr>actual_coordinates := cs,
                     current_coordinate := Some c,
                     initial_coordinate := Some c,
                     actual_movement_path :=
                       Some \<lparr>points = map (\<lambda>p. (x_utm p, y_utm p, alt p)) cs,
                             lines = map (\<lambda>i. (i, i + 1)) [0 ..< length cs - 1]\<rparr>\<rparr>))"

text \<open>
  The lines of \<^verbatim>\<open>merge_next_frame\<close> between the fetch of the frame and the test
  for None, which the source calls a temporary debugging visualization: a visualizer is
  made, \<^verbatim>\<open>self.actual_movement_path\<close> is read (AttributeError when it was never
  set), the view runs until its window is closed, and the undefined name
  \<^verbatim>\<open>afdsajhuiCRASH\<close> is evaluated, which raises NameError.
\<close>

definition debug_visualization ::
  "'r absolute_lidar_navigator \<Rightarrow> error + 'r absolute_lidar_navigator" where
  "debug_visualization st =
     (case actual_movement_path (st\<lparr>vis := True\<rparr>) of
        None \<Rightarrow> Inl AttributeError
      | Some path \<Rightarrow> Inl NameError)"

text \<open>
  The rest of \<^verbatim>\<open>merge_next_frame\<close>, from the test for None on. A method call on
  \<^verbatim>\<open>self.vis\<close> while it is None raises AttributeError.
\<close>

definition merge_fetched_frame ::
  "'r environment \<Rightarrow> point_cloud option \<Rightarrow> 'r absolute_lidar_navigator
     \<Rightarrow> error + (bool \<times> 'r absolute_lidar_navigator)" where
  "merge_fetched_frame env fetched st =
     (case fetched of
        None \<Rightarrow> Inr (False, st)
      | Some frame \<Rightarrow>
          (let reg = matcher_init env frame (full_cloud st) 10;
               movement = translation_column (transformation reg);
               plot1 = (plot st)
                 \<lparr>timeUsages := timeUsages (plot st) @ [elapsed env frame (full_cloud st)],
                  rmses := rmses (plot st) @ [inlier_rmse reg],
                  fitnesses := fitnesses (plot st) @ [fitness reg],
                  distances := distances (plot st) @ [sqrt (vec_dot movement movement)]\<rparr>;
               movements1 = movements st @ [movement];
               path1 = (movement_path st)
                 \<lparr>points := points (movement_path st) @ [translation_column (transformation reg)]\<rparr>;
               path2 = (if length movements1 \<ge> 2
                        then path1\<lparr>lines := lines path1
                                 @ [(length movements1 - 2, length movements1 - 1)]\<rparr>
                        else path1)
           in if length movements1 \<ge> 2 \<and> \<not> vis st then Inl AttributeError
              else
                (let st1 = st\<lparr>plot := plot1,
                              movements := movements1,
                              movement_path := path2,
                              previous_transformation := Some (transformation reg),
                              merged_frame := cloud_add (merged_frame st)
                                                (transform (transformation reg) frame),
                              merged_frame_is_dirty := True,
                              downsample_timer := downsample_timer st - 1\<rparr>
                 in if downsample_timer st1 \<le> 0
                    then Inr (True, (ensure_merged_frame_is_downsampled env st1)
                                      \<lparr>downsample_timer := downsample_cloud_after_frames st1\<rparr>)
                    else Inr (True, st1))))"

text \<open>\<^verbatim>\<open>merge_next_frame\<close>: the fetch, the debugging lines, the rest.\<close>

definition merge_next_frame ::
  "'r environment \<Rightarrow> 'r absolute_lidar_navigator
     \<Rightarrow> error + (bool \<times> 'r absolute_lidar_navigator)" where
  "merge_next_frame env st =
     (case reader_next_frame env (remove_vehicle_arg st) (reader st) of
        Inl e \<Rightarrow> Inl e
      | Inr (fetched, r') \<Rightarrow>
          (case debug_visualization (st\<lparr>reader := r'\<rparr>) of
             Inl e \<Rightarrow> Inl e
           | Inr st1 \<Rightarrow> merge_fetched_frame env fetched st1))"

text \<open>
  The loop \<^verbatim>\<open>for i in range(0, self.frame_limit)\<close>. A step that returns False
  does not end the loop; after the first step that returns True the visualizer exists.
  An exception other than KeyboardInterrupt leaves the loop and the method; interrupts
  from outside are not modelled.
\<close>

fun navigation_loop ::
  "'r environment \<Rightarrow> nat \<Rightarrow> 'r absolute_lidar_navigator
     \<Rightarrow> error + 'r absolute_lidar_navigator" where
  "navigation_loop env 0 st = Inr st"
| "navigation_loop env (Suc n) st =
     (case merge_next_frame env st of
        Inl e \<Rightarrow> Inl e
      | Inr (merged, st') \<Rightarrow>
          navigation_loop env n (if merged then st'\<lparr>vis := True\<rparr> else st'))"

text \<open>
  \<^verbatim>\<open>navigate_through_file\<close> up to the call that ensures the downsampling, after
  which the observers get the model. \<open>sbet\<close> tells whether \<^verbatim>\<open>args.sbet\<close> is given.
\<close>

definition navigate_through_file ::
  "'r environment \<Rightarrow> bool \<Rightarrow> 'r absolute_lidar_navigator
     \<Rightarrow> error + 'r absolute_lidar_navigator" where
  "navigate_through_file env sbet st =
     (let st0 = st\<lparr>reader := skip_initial_frames env (reader st),
                   movements := [], movement_path := empty_line_set\<rparr>
      in case (if sbet then read_actual_coordinates env st0 else Inr st0) of
           Inl e \<Rightarrow> Inl e
         | Inr st1 \<Rightarrow>
             (case navigation_loop env (nat (frame_limit st1))
                     (st1\<lparr>vis := False, merged_frame := empty_cloud, plot := empty_plot\<rparr>) of
                Inl e \<Rightarrow> Inl e
              | Inr st2 \<Rightarrow> Inr (ensure_merged_frame_is_downsampled env st2)))"

section \<open>Concrete inputs\<close>

definition scan_a :: lidar_scan where
  "scan_a = \<lparr>scan_xyz = [(1, 2, 2), (0, 0, 0), (30, 40, 1)],
             scan_colors = [(1, 0, 0), (0, 1, 0), (0, 0, 1)]\<rparr>"

definition reader_a :: pcap_reader where
  "reader_a = \<lparr>pcap_path = ''a.pcap'', scans = [scan_a], skip_frames = 0, max_distance = Some 5\<rparr>"

definition serial_a :: serial_pcap_reader where
  "serial_a = \<lparr>readers =
       [\<lparr>pcap_path = ''e.pcap'', scans = [], skip_frames = 0, max_distance = None\<rparr>,
        \<lparr>pcap_path = ''s.pcap'', scans = [scan_a], skip_frames = 1, max_distance = None\<rparr>,
        reader_a],
     current_reader_index = 0, serial_max_distance = None, serial_pcap_path = Some ''e.pcap''\<rparr>"


definition frame_a :: point_cloud where
  "frame_a = \<lparr>points = [(1, 1, 1)], colors = [(1, 0, 0)]\<rparr>"

definition frame_b :: point_cloud where
  "frame_b = \<lparr>points = [(2, 1, 1)], colors = [(0, 1, 0)]\<rparr>"

definition shift_x :: mat4 where
  "shift_x = ((1, 0, 0, 1), (0, 1, 0, 0), (0, 0, 1, 0), (0, 0, 0, 1))"

definition row_a :: sbet_row where
  "row_a = \<lparr>sow = 0, lat = 61, lon = 10, alt = 200, age = 0, index = 0,
            x_utm = 100, y_utm = 50, heading = 0\<rparr>"

text \<open>
  An environment over a reader that is the list of the frames still to come: the matcher
  finds a shift by one along the first axis with fitness 0, and the downsampling keeps
  one copy of every point.
\<close>

definition pop_frame :: "point_cloud list \<Rightarrow> point_cloud option \<times> point_cloud list" where
  "pop_frame r = (case r of [] \<Rightarrow> (None, []) | f # fs \<Rightarrow> (Some f, fs))"

definition env_a :: "point_cloud list environment" where
  "env_a = \<lparr>readFrame = (\<lambda>n rv r. (if n < length r then Some (r ! n) else None, r)),
            nextFrame = (\<lambda>rv r. pop_frame r),
            preparedClouds = (\<lambda>r. 0),
            matcher = (\<lambda>source target. \<lparr>transformation = shift_x, fitness = 0, inlier_rmse = 0\<rparr>),
            matcher_init = (\<lambda>source target n. \<lparr>transformation = shift_x, fitness = 0, inlier_rmse = 0\<rparr>),
            voxel_down_sample = (\<lambda>v c. \<lparr>points = remdups (points c), colors = []\<rparr>),
            elapsed = (\<lambda>source target. 1),
            reader_next_frame = (\<lambda>rv r. Inr (pop_frame r)),
            get_coordinates = (\<lambda>rotate r. [row_a]),
            skip_initial_frames = (\<lambda>r. r)\<rparr>"

definition nav_b :: "point_cloud list lidar_navigator" where
  "nav_b = \<lparr>reader = [frame_b], frame_limit = - 1, voxel_size = 1 / 10,
            movements = [(0, 0, 0), (3, 4, 0)], plot = empty_plot, preview = False,
            movementPath = \<lparr>points = [(0, 0, 0), (3, 4, 0)], lines = [(0, 1)]\<rparr>,
            mergedFrame = Some frame_a, previousFrame = Some frame_a\<rparr>"

definition nav_c :: "point_cloud list lidar_navigator" where
  "nav_c = nav_b\<lparr>reader := [empty_cloud]\<rparr>"

definition abs_a :: "point_cloud list absolute_lidar_navigator" where
  "abs_a = \<lparr>reader = [frame_a, frame_b, frame_a], frame_limit = 3, voxel_size = 1 / 10,
            movements = [], plot = empty_plot,
            remove_vehicle_arg = False, preview_always = False,
            full_cloud = frame_a, full_point_cloud_offset = (1, 2, 3),
            movement_path = empty_line_set, actual_coordinates = [],
            current_coordinate = None, initial_coordinate = None,
            actual_movement_path = None, vis = False,
            merged_frame = empty_cloud, merged_frame_is_dirty = False,
            downsample_timer = 2, downsample_cloud_after_frames = 2,
            previous_transformation = None\<rparr>"

definition abs_eos :: "point_cloud list absolute_lidar_navigator" where
  "abs_eos = abs_a\<lparr>reader := [],
                   actual_movement_path := Some \<lparr>points = [(99, 48, 157)], lines = []\<rparr>\<rparr>"

definition files_a :: file_system where
  "files_a = (\<lambda>p. None)(''raw.pcd'' := Some (PointCloudFile
       \<lparr>points = [(10, 20, 30), (14, 20, 36)], colors = []\<rparr>))"

text \<open>
  The same environment over the caching reader, and fresh readers over one and over
  three frames.
\<close>

definition env_c :: "frame_reader environment" where
  "env_c = \<lparr>readFrame = cached_readFrame,
            nextFrame = cached_nextFrame,
            preparedClouds = (\<lambda>r. length (prepared r)),
            matcher = (\<lambda>source target. \<lparr>transformation = shift_x, fitness = 0, inlier_rmse = 0\<rparr>),
            matcher_init = (\<lambda>source target n. \<lparr>transformation = shift_x, fitness = 0, inlier_rmse = 0\<rparr>),
            voxel_down_sample = (\<lambda>v c. \<lparr>points = remdups (points c), colors = []\<rparr>),
            elapsed = (\<lambda>source target. 1),
            reader_next_frame = (\<lambda>rv r. Inr (cached_nextFrame rv r)),
            get_coordinates = (\<lambda>rotate r. [row_a]),
            skip_initial_frames = (\<lambda>r. r)\<rparr>"

definition nav_one :: "frame_reader lidar_navigator" where
  "nav_one = \<lparr>reader = \<lparr>pending = [frame_a], prepared = []\<rparr>,
              frame_limit = - 1, voxel_size = 1 / 10,
              movements = [], plot = empty_plot, preview = False,
              movementPath = empty_line_set, mergedFrame = None, previousFrame = None\<rparr>"

definition nav_one_end :: "frame_reader lidar_navigator" where
  "nav_one_end = nav_one\<lparr>reader := \<lparr>pending = [], prepared = [frame_a]\<rparr>,
                         mergedFrame := Some frame_a, previousFrame := Some frame_a\<rparr>"

definition nav_three :: "frame_reader lidar_navigator" where
  "nav_three = nav_one\<lparr>reader := \<lparr>pending = [frame_a, frame_b, frame_a], prepared = []\<rparr>\<rparr>"

section \<open>The frame sources\<close>

lemma bool_index_pair:
  assumes "bool_index ys (map P xs) = Inr ys'" and "bool_index xs (map P xs) = Inr xs'"
  shows "length ys' = length xs' \<and> zip xs' ys' = filter (\<lambda>(p, c). P p) (zip xs ys)"
proof -
  from assms(1) have len: "length xs = length ys"
    by (simp add: bool_index_def split: if_splits)
  have gen: "length (map fst (filter snd (zip ys (map P xs)))) = length (map fst (filter snd (zip xs (map P xs))))
      \<and> zip (map fst (filter snd (zip xs (map P xs)))) (map fst (filter snd (zip ys (map P xs))))
        = filter (\<lambda>(p, c). P p) (zip xs ys)"
    using len by (induction xs ys rule: list_induct2) auto
  from assms len have "ys' = map fst (filter snd (zip ys (map P xs)))"
    and "xs' = map fst (filter snd (zip xs (map P xs)))"
    by (auto simp: bool_index_def)
  with gen show ?thesis by simp
qed

lemma first_filter_pair:
  assumes "(if rv then remove_vehicle xyz col else remove_invalid xyz col) = Inr c1"
    and "(if rv then remove_vehicle xyz xyz else remove_invalid xyz xyz) = Inr x1"
  shows "length c1 = length x1
     \<and> zip x1 c1 = filter (\<lambda>(p, c). if rv then vehicle_mask p else invalid_mask p) (zip xyz col)"
proof (cases rv)
  case True
  with assms bool_index_pair [of col vehicle_mask xyz c1 x1] show ?thesis
    by (simp add: remove_vehicle_def)
next
  case False
  with assms bool_index_pair [of col invalid_mask xyz c1 x1] show ?thesis
    by (simp add: remove_invalid_def)
qed

lemma next_frame_Some_cases:
  assumes "next_frame rv rd = Inr (Some f, rd')"
  obtains c1 x1 where "skip_frames rd < length (scans rd)"
    and "(if rv then remove_vehicle (scan_xyz (scans rd ! skip_frames rd))
                        (scan_colors (scans rd ! skip_frames rd))
          else remove_invalid (scan_xyz (scans rd ! skip_frames rd))
                        (scan_colors (scans rd ! skip_frames rd))) = Inr c1"
    and "(if rv then remove_vehicle (scan_xyz (scans rd ! skip_frames rd))
                        (scan_xyz (scans rd ! skip_frames rd))
          else remove_invalid (scan_xyz (scans rd ! skip_frames rd))
                        (scan_xyz (scans rd ! skip_frames rd))) = Inr x1"
    and "case max_distance rd of
           None \<Rightarrow> f = \<lparr>points = x1, colors = c1\<rparr>
         | Some d \<Rightarrow> (\<exists>c2 x2. remove_outside_distance d x1 c1 = Inr c2
              \<and> remove_outside_distance d x1 x1 = Inr x2 \<and> f = \<lparr>points = x2, colors = c2\<rparr>)"
    and "rd' = rd\<lparr>scans := drop (Suc (skip_frames rd)) (scans rd)\<rparr>"
  using assms unfolding next_frame_def skip_and_get_def Let_def
  by (auto split: if_splits sum.splits option.splits)

text \<open>
  Claim C9. Every frame that \<open>next_frame\<close> returns has a colour array of the length of
  its point array, and the two are index-aligned: row by row they are the rows of the
  scan's point and colour arrays that pass the one filter \<open>keep_row\<close> (invalid points or
  the vehicle, then the maximal distance), so each filter has applied one mask to both
  arrays. A scan whose two arrays differ in length gives IndexError and no frame.
\<close>

theorem next_frame_colors_aligned:
  assumes "next_frame rv rd = Inr (Some f, rd')"
  shows "length (colors f) = length (points f)
     \<and> skip_frames rd < length (scans rd)
     \<and> zip (points f) (colors f)
       = filter (\<lambda>(p, c). keep_row rv (max_distance rd) p)
           (zip (scan_xyz (scans rd ! skip_frames rd)) (scan_colors (scans rd ! skip_frames rd)))"
proof -
  let ?xyz = "scan_xyz (scans rd ! skip_frames rd)"
  let ?col = "scan_colors (scans rd ! skip_frames rd)"
  from assms obtain c1 x1 where lt: "skip_frames rd < length (scans rd)"
    and c1: "(if rv then remove_vehicle ?xyz ?col else remove_invalid ?xyz ?col) = Inr c1"
    and x1: "(if rv then remove_vehicle ?xyz ?xyz else remove_invalid ?xyz ?xyz) = Inr x1"
    and md: "case max_distance rd of
           None \<Rightarrow> f = \<lparr>points = x1, colors = c1\<rparr>
         | Some d \<Rightarrow> (\<exists>c2 x2. remove_outside_distance d x1 c1 = Inr c2
              \<and> remove_outside_distance d x1 x1 = Inr x2 \<and> f = \<lparr>points = x2, colors = c2\<rparr>)"
    by (rule next_frame_Some_cases)
  from first_filter_pair [OF c1 x1]
  have s1: "length c1 = length x1"
    and z1: "zip x1 c1 = filter (\<lambda>(p, c). if rv then vehicle_mask p else invalid_mask p) (zip ?xyz ?col)"
    by simp_all
  show ?thesis
  proof (cases "max_distance rd")
    case None
    with md s1 z1 lt show ?thesis by (simp add: keep_row_def)
  next
    case (Some d)
    with md obtain c2 x2 where c2: "bool_index c1 (map (distance_mask d) x1) = Inr c2"
      and x2: "bool_index x1 (map (distance_mask d) x1) = Inr x2"
      and f: "f = \<lparr>points = x2, colors = c2\<rparr>"
      by (auto simp: remove_outside_distance_def)
    from bool_index_pair [OF c2 x2]
    have "length c2 = length x2" and "zip x2 c2 = filter (\<lambda>(p, c). distance_mask d p) (zip x1 c1)"
      by simp_all
    with z1 f Some lt show ?thesis
      by (simp add: keep_row_def split_def)
  qed
qed

lemma next_frame_exhausted:
  "exhausted rd \<Longrightarrow> next_frame rv rd = Inr (None, rd\<lparr>scans := []\<rparr>)"
  by (simp add: exhausted_def next_frame_def skip_and_get_def)

lemma bool_index_total:
  "length xs = length ys \<Longrightarrow> \<exists>ys'. bool_index ys (map P xs) = Inr ys'"
  by (simp add: bool_index_def)

lemma next_frame_live:
  assumes live: "\<not> exhausted rd" and wf: "wf_reader rd"
  shows "\<exists>f. next_frame rv rd = Inr (Some f, rd\<lparr>scans := drop (Suc (skip_frames rd)) (scans rd)\<rparr>)"
proof -
  let ?sc = "scans rd ! skip_frames rd"
  let ?xyz = "scan_xyz ?sc" and ?col = "scan_colors ?sc"
  let ?P = "\<lambda>p. if rv then vehicle_mask p else invalid_mask p"
  from live have lt: "skip_frames rd < length (scans rd)"
    by (simp add: exhausted_def)
  with wf have len: "length ?xyz = length ?col"
    by (simp add: wf_reader_def wf_scan_def list_all_length)
  then obtain c1 where c1: "bool_index ?col (map ?P ?xyz) = Inr c1"
    using bool_index_total by blast
  obtain x1 where x1: "bool_index ?xyz (map ?P ?xyz) = Inr x1"
    using bool_index_total [of ?xyz ?xyz] by blast
  from bool_index_pair [OF c1 x1] have len1: "length x1 = length c1" by simp
  have stage1: "(if rv then remove_vehicle ?xyz ?col else remove_invalid ?xyz ?col) = Inr c1"
    "(if rv then remove_vehicle ?xyz ?xyz else remove_invalid ?xyz ?xyz) = Inr x1"
    using c1 x1 by (cases rv; simp add: remove_vehicle_def remove_invalid_def)+
  show ?thesis
  proof (cases "max_distance rd")
    case None
    with lt stage1 show ?thesis
      by (simp add: next_frame_def skip_and_get_def Let_def)
  next
    case (Some d)
    from len1 obtain c2 where c2: "remove_outside_distance d x1 c1 = Inr c2"
      using bool_index_total [of x1 c1] by (auto simp: remove_outside_distance_def)
    obtain x2 where x2: "remove_outside_distance d x1 x1 = Inr x2"
      using bool_index_total [of x1 x1] by (auto simp: remove_outside_distance_def)
    from Some lt stage1 c2 x2 show ?thesis
      by (simp add: next_frame_def skip_and_get_def Let_def)
  qed
qed

lemma exhausted_max_distance [simp]:
  "exhausted (rd\<lparr>max_distance := md\<rparr>) = exhausted rd"
  by (simp add: exhausted_def)

lemma wf_reader_max_distance [simp]:
  "wf_reader (rd\<lparr>max_distance := md\<rparr>) = wf_reader rd"
  by (simp add: wf_reader_def)

lemma serial_next_frame_char:
  assumes "\<forall>rd\<in>set (readers s). wf_reader rd"
  shows "\<exists>r s'. serial_next_frame rv s = Inr (r, s')
     \<and> length (readers s') = length (readers s)
     \<and> serial_max_distance s' = serial_max_distance s
     \<and> current_reader_index s \<le> current_reader_index s'
     \<and> (\<forall>i<current_reader_index s. readers s' ! i = readers s ! i)
     \<and> (\<forall>i. current_reader_index s \<le> i \<and> i < current_reader_index s' \<and> i < length (readers s)
           \<longrightarrow> exhausted (readers s ! i) \<and> exhausted (readers s' ! i))
     \<and> (\<forall>rd\<in>set (readers s'). wf_reader rd)
     \<and> (case r of
           None \<Rightarrow> length (readers s) \<le> current_reader_index s'
         | Some f \<Rightarrow> current_reader_index s' < length (readers s)
             \<and> \<not> exhausted (readers s ! current_reader_index s')
             \<and> next_frame rv ((readers s ! current_reader_index s')\<lparr>max_distance := serial_max_distance s\<rparr>)
                 = Inr (Some f, readers s' ! current_reader_index s'))"
  using assms
proof (induction rv s rule: serial_next_frame.induct)
  case (1 rv s)
  let ?i = "current_reader_index s"
  let ?rd = "(readers s ! ?i)\<lparr>max_distance := serial_max_distance s\<rparr>"
  show ?case
  proof (cases "?i \<ge> length (readers s)")
    case True
    then show ?thesis using "1.prems"
      by (subst serial_next_frame.simps) auto
  next
    case inb: False
    then have mem: "readers s ! ?i \<in> set (readers s)" by simp
    with "1.prems" have wfrd: "wf_reader ?rd" by simp
    show ?thesis
    proof (cases "exhausted (readers s ! ?i)")
      case ex: True
      let ?rd' = "?rd\<lparr>scans := []\<rparr>"
      let ?s1 = "next_reader (s\<lparr>readers := (readers s)[?i := ?rd']\<rparr>)"
      have nf: "next_frame rv ?rd = Inr (None, ?rd')"
        using ex by (simp add: next_frame_exhausted)
      have s1: "readers ?s1 = (readers s)[?i := ?rd']" "current_reader_index ?s1 = Suc ?i"
        "serial_max_distance ?s1 = serial_max_distance s"
        by (simp_all add: next_reader_def set_metadata_def)
      have wf1: "\<forall>rd\<in>set (readers ?s1). wf_reader rd"
      proof
        fix rd assume "rd \<in> set (readers ?s1)"
        then have "rd \<in> insert ?rd' (set (readers s))"
          using set_update_subset_insert s1(1) by fastforce
        then show "wf_reader rd" using "1.prems" by (auto simp: wf_reader_def)
      qed
      from "1.IH" [OF inb nf refl refl wf1]
      obtain r s' where res: "serial_next_frame rv ?s1 = Inr (r, s')"
        and len: "length (readers s') = length (readers ?s1)"
        and md: "serial_max_distance s' = serial_max_distance ?s1"
        and mono: "current_reader_index ?s1 \<le> current_reader_index s'"
        and keep: "\<forall>i<current_reader_index ?s1. readers s' ! i = readers ?s1 ! i"
        and exh: "\<forall>i. current_reader_index ?s1 \<le> i \<and> i < current_reader_index s' \<and> i < length (readers ?s1)
           \<longrightarrow> exhausted (readers ?s1 ! i) \<and> exhausted (readers s' ! i)"
        and wf': "\<forall>rd\<in>set (readers s'). wf_reader rd"
        and rcase: "case r of
           None \<Rightarrow> length (readers ?s1) \<le> current_reader_index s'
         | Some f \<Rightarrow> current_reader_index s' < length (readers ?s1)
             \<and> \<not> exhausted (readers ?s1 ! current_reader_index s')
             \<and> next_frame rv ((readers ?s1 ! current_reader_index s')\<lparr>max_distance := serial_max_distance ?s1\<rparr>)
                 = Inr (Some f, readers s' ! current_reader_index s')"
        by blast
      have call: "serial_next_frame rv s = Inr (r, s')"
        using inb nf res by (subst serial_next_frame.simps) simp
      have at_i: "readers s' ! ?i = ?rd'"
        using keep inb by (simp add: s1)
      have other: "\<And>k. k \<noteq> ?i \<Longrightarrow> readers ?s1 ! k = readers s ! k"
        by (simp add: s1)
      have c1: "\<forall>i<?i. readers s' ! i = readers s ! i"
        using keep by (simp add: s1)
      have c2: "\<forall>i. ?i \<le> i \<and> i < current_reader_index s' \<and> i < length (readers s)
           \<longrightarrow> exhausted (readers s ! i) \<and> exhausted (readers s' ! i)"
      proof (intro allI impI)
        fix k assume k: "?i \<le> k \<and> k < current_reader_index s' \<and> k < length (readers s)"
        show "exhausted (readers s ! k) \<and> exhausted (readers s' ! k)"
        proof (cases "k = ?i")
          case True
          then show ?thesis using ex at_i by (simp add: exhausted_def)
        next
          case False
          with k exh other [of k] show ?thesis by (simp add: s1)
        qed
      qed
      have c3: "case r of
           None \<Rightarrow> length (readers s) \<le> current_reader_index s'
         | Some f \<Rightarrow> current_reader_index s' < length (readers s)
             \<and> \<not> exhausted (readers s ! current_reader_index s')
             \<and> next_frame rv ((readers s ! current_reader_index s')\<lparr>max_distance := serial_max_distance s\<rparr>)
                 = Inr (Some f, readers s' ! current_reader_index s')"
      proof (cases r)
        case None
        with rcase show ?thesis by (simp add: s1)
      next
        case (Some f)
        from mono have "current_reader_index s' \<noteq> ?i" by (simp add: s1)
        with Some rcase other [of "current_reader_index s'"] show ?thesis
          by (simp add: s1)
      qed
      from call len md mono c1 c2 wf' c3 show ?thesis
        by (simp add: s1) 
    next
      case live: False
      let ?rd' = "?rd\<lparr>scans := drop (Suc (skip_frames ?rd)) (scans ?rd)\<rparr>"
      let ?s' = "s\<lparr>readers := (readers s)[?i := ?rd']\<rparr>"
      from live wfrd obtain f where nf: "next_frame rv ?rd = Inr (Some f, ?rd')"
        using next_frame_live [of ?rd rv] by auto
      have call: "serial_next_frame rv s = Inr (Some f, ?s')"
        using inb nf by (subst serial_next_frame.simps) simp
      have wf': "\<forall>rd\<in>set (readers ?s'). wf_reader rd"
      proof
        fix rd assume "rd \<in> set (readers ?s')"
        then have "rd \<in> insert ?rd' (set (readers s))"
          using set_update_subset_insert by fastforce
        moreover have "wf_reader ?rd'"
          using wfrd by (auto simp: wf_reader_def list_all_iff dest: in_set_dropD)
        ultimately show "wf_reader rd" using "1.prems" by auto
      qed
      from call inb live nf wf' show ?thesis
        by auto
    qed
  qed
qed

lemma distance_mask_examples:
  "distance_mask 5 (1, 2, 2)" "\<not> distance_mask 5 (30, 40, 1)"
proof -
  have "sqrt (1 + 2\<^sup>2 + 2\<^sup>2) \<le> (5::real)"
    by (rule real_le_lsqrt) simp_all
  then show "distance_mask 5 (1, 2, 2)" by (simp add: distance_mask_def)
  have "(5::real) < sqrt (30\<^sup>2 + 40\<^sup>2 + 1\<^sup>2)"
    by (rule real_less_rsqrt) simp
  then show "\<not> distance_mask 5 (30, 40, 1)" by (simp add: distance_mask_def)
qed

lemma next_frame_reader_a:
  "next_frame False reader_a
     = Inr (Some \<lparr>points = [(1, 2, 2)], colors = [(1, 0, 0)]\<rparr>, reader_a\<lparr>scans := []\<rparr>)"
  by (simp add: next_frame_def reader_a_def scan_a_def skip_and_get_def remove_invalid_def
      remove_outside_distance_def bool_index_def invalid_mask_def distance_mask_examples)

theorem next_frame_colors_aligned_witness:
  "next_frame False reader_a
     = Inr (Some \<lparr>points = [(1, 2, 2)], colors = [(1, 0, 0)]\<rparr>, reader_a\<lparr>scans := []\<rparr>)
   \<and> zip [(1, 2, 2)] [(1, 0, 0)]
       = filter (\<lambda>(p, c). keep_row False (Some 5) p)
           (zip [(1, 2, 2), (0, 0, 0), (30, 40, 1)] [(1 :: real, 0 :: real, 0 :: real), (0, 1, 0), (0, 0, 1)])"
  using next_frame_colors_aligned [OF next_frame_reader_a] next_frame_reader_a
  by (simp add: reader_a_def scan_a_def)

text \<open>
  Claim C10. Let every scan be well formed and let the readers before the current index
  be exhausted (as they are at the start and after every call). Then the serial
  \<open>next_frame\<close> returns without an error; it returns None exactly when every reader is
  exhausted; otherwise the frame is the one that the first reader at or after the
  current index that is not exhausted delivers, the index then points to that reader,
  every reader passed over was exhausted, and the index never decreases. The readers
  before the new index are again exhausted.
\<close>

theorem serial_next_frame_first_live_reader:
  assumes wf: "\<forall>rd\<in>set (readers s). wf_reader rd"
    and inv: "\<forall>i<current_reader_index s. i < length (readers s) \<longrightarrow> exhausted (readers s ! i)"
  shows "\<exists>r s'. serial_next_frame rv s = Inr (r, s')
     \<and> ((r = None) = (\<forall>rd\<in>set (readers s). exhausted rd))
     \<and> length (readers s') = length (readers s)
     \<and> current_reader_index s \<le> current_reader_index s'
     \<and> (\<forall>i. current_reader_index s \<le> i \<and> i < current_reader_index s' \<and> i < length (readers s)
           \<longrightarrow> exhausted (readers s ! i))
     \<and> (\<forall>i<current_reader_index s'. i < length (readers s') \<longrightarrow> exhausted (readers s' ! i))
     \<and> (case r of
           None \<Rightarrow> True
         | Some f \<Rightarrow> current_reader_index s' < length (readers s)
             \<and> \<not> exhausted (readers s ! current_reader_index s')
             \<and> next_frame rv ((readers s ! current_reader_index s')\<lparr>max_distance := serial_max_distance s\<rparr>)
                 = Inr (Some f, readers s' ! current_reader_index s'))"
proof -
  from serial_next_frame_char [OF wf, of rv]
  obtain r s' where res: "serial_next_frame rv s = Inr (r, s')"
    and len: "length (readers s') = length (readers s)"
    and mono: "current_reader_index s \<le> current_reader_index s'"
    and keep: "\<forall>i<current_reader_index s. readers s' ! i = readers s ! i"
    and exh: "\<forall>i. current_reader_index s \<le> i \<and> i < current_reader_index s' \<and> i < length (readers s)
           \<longrightarrow> exhausted (readers s ! i) \<and> exhausted (readers s' ! i)"
    and rcase: "case r of
           None \<Rightarrow> length (readers s) \<le> current_reader_index s'
         | Some f \<Rightarrow> current_reader_index s' < length (readers s)
             \<and> \<not> exhausted (readers s ! current_reader_index s')
             \<and> next_frame rv ((readers s ! current_reader_index s')\<lparr>max_distance := serial_max_distance s\<rparr>)
                 = Inr (Some f, readers s' ! current_reader_index s')"
    by blast
  have passed: "\<forall>i<current_reader_index s'. i < length (readers s') \<longrightarrow> exhausted (readers s' ! i)"
  proof (intro allI impI)
    fix i assume i: "i < current_reader_index s'" and il: "i < length (readers s')"
    show "exhausted (readers s' ! i)"
    proof (cases "i < current_reader_index s")
      case True
      with keep inv il len show ?thesis by simp
    next
      case False
      with exh i il len show ?thesis by simp
    qed
  qed
  have iff: "(r = None) = (\<forall>rd\<in>set (readers s). exhausted rd)"
  proof (cases r)
    case None
    with rcase have ge: "length (readers s) \<le> current_reader_index s'" by simp
    have "\<forall>i<length (readers s). exhausted (readers s ! i)"
    proof (intro allI impI)
      fix i assume il: "i < length (readers s)"
      show "exhausted (readers s ! i)"
      proof (cases "i < current_reader_index s")
        case True
        with inv il show ?thesis by simp
      next
        case False
        with exh il ge show ?thesis by simp
      qed
    qed
    then have "\<forall>rd\<in>set (readers s). exhausted rd"
      by (auto simp: in_set_conv_nth)
    with None show ?thesis by simp
  next
    case (Some f)
    with rcase have "current_reader_index s' < length (readers s)"
      and "\<not> exhausted (readers s ! current_reader_index s')" by simp_all
    then have "\<not> (\<forall>rd\<in>set (readers s). exhausted rd)"
      using nth_mem by blast
    with Some show ?thesis by simp
  qed
  have rc: "case r of
           None \<Rightarrow> True
         | Some f \<Rightarrow> current_reader_index s' < length (readers s)
             \<and> \<not> exhausted (readers s ! current_reader_index s')
             \<and> next_frame rv ((readers s ! current_reader_index s')\<lparr>max_distance := serial_max_distance s\<rparr>)
                 = Inr (Some f, readers s' ! current_reader_index s')"
    using rcase by (cases r) simp_all
  from res iff len mono exh passed rc show ?thesis by blast
qed

theorem serial_next_frame_first_live_reader_witness:
  "list_all wf_reader (readers serial_a)
   \<and> current_reader_index serial_a = 0
   \<and> exhausted (readers serial_a ! 0) \<and> exhausted (readers serial_a ! 1)
   \<and> \<not> exhausted (readers serial_a ! 2)
   \<and> (\<exists>f s'. serial_next_frame False serial_a = Inr (Some f, s') \<and> current_reader_index s' = 2)"
proof -
  have wf: "\<forall>rd\<in>set (readers serial_a). wf_reader rd"
    by (simp add: serial_a_def reader_a_def scan_a_def wf_reader_def wf_scan_def)
  have inv: "\<forall>i<current_reader_index serial_a. i < length (readers serial_a) \<longrightarrow> exhausted (readers serial_a ! i)"
    by (simp add: serial_a_def)
  have ex: "exhausted (readers serial_a ! 0)" "exhausted (readers serial_a ! 1)"
    "\<not> exhausted (readers serial_a ! 2)" "length (readers serial_a) = 3"
    by (simp_all add: serial_a_def reader_a_def exhausted_def)
  from serial_next_frame_first_live_reader [OF wf inv, of False]
  obtain r s' where res: "serial_next_frame False serial_a = Inr (r, s')"
    and iff: "(r = None) = (\<forall>rd\<in>set (readers serial_a). exhausted rd)"
    and rc: "case r of None \<Rightarrow> True
         | Some f \<Rightarrow> current_reader_index s' < length (readers serial_a)
             \<and> \<not> exhausted (readers serial_a ! current_reader_index s')
             \<and> next_frame False ((readers serial_a ! current_reader_index s')\<lparr>max_distance := serial_max_distance serial_a\<rparr>)
                 = Inr (Some f, readers s' ! current_reader_index s')"
    by blast
  have "\<not> (\<forall>rd\<in>set (readers serial_a). exhausted rd)"
    using ex(3,4) nth_mem [of 2 "readers serial_a"] by auto
  with iff obtain f where r: "r = Some f" by auto
  with rc have lt: "current_reader_index s' < 3"
    and live: "\<not> exhausted (readers serial_a ! current_reader_index s')"
    using ex(4) by simp_all
  have "current_reader_index s' = 2"
  proof (rule ccontr)
    assume "current_reader_index s' \<noteq> 2"
    with lt have "current_reader_index s' = 0 \<or> current_reader_index s' = 1" by arith
    with live ex show False by auto
  qed
  moreover have "list_all wf_reader (readers serial_a)"
    using wf by (simp add: list_all_iff)
  moreover have "current_reader_index serial_a = 0"
    by (simp add: serial_a_def)
  ultimately show ?thesis using res r ex by blast
qed


section \<open>Relative mode\<close>

lemma transform_origin:
  assumes "bottom_row T = (0, 0, 0, 1)"
  shows "transform_point T (0, 0, 0) = translation_column T"
  using assms
  by (cases T) (auto simp: bottom_row_def transform_point_def row_dot_def translation_column_def)

text \<open>
  Claim C4. For a transformation whose bottom row is \<open>(0, 0, 0, 1)\<close>, as that of every
  rigid transformation is, the movement that \<open>alignFrame\<close> computes (the centre of the
  transformed one-point cloud at the origin, relative mode) is the translation column
  \<^verbatim>\<open>T[:3,3]\<close> that absolute mode takes. In real arithmetic the two are equal.
\<close>

theorem alignFrame_movement_is_translation_column:
  assumes "bottom_row (transformation (matcher env source target)) = (0, 0, 0, 1)"
  shows "fst (snd (alignFrame env source target))
           = translation_column (transformation (matcher env source target))"
  using assms
  by (simp add: alignFrame_def Let_def get_center_def transform_def transform_origin)

lemma dist3_vec_add:
  "dist3 (vec_add a m) (vec_add b m) = dist3 a b"
  by (cases a; cases b; cases m) (simp add: dist3_def vec_add_def vec_sub_def)

lemma mergeNextFrame_cases:
  assumes "mergeNextFrame env st = Inr (b, st')"
  shows "(b = False \<and> st' = st\<lparr>reader := snd (nextFrame env True (reader st))\<rparr>
            \<and> fst (nextFrame env True (reader st)) = None)
       \<or> (\<exists>frame previous mf. b = True
            \<and> nextFrame env True (reader st) = (Some frame, reader st')
            \<and> previousFrame st = Some previous \<and> mergedFrame st = Some mf
            \<and> movements st' = map (\<lambda>m. vec_add m (fst (snd (alignFrame env previous frame)))) (movements st)
                 @ [fst (snd (alignFrame env previous frame))])"
  using assms unfolding mergeNextFrame_def
  by (auto simp: Let_def split: prod.splits option.splits)


lemma mergeNextFrame_Some:
  assumes nf: "nextFrame env True (reader st) = (Some frame, r')"
    and prev: "previousFrame st = Some previous" and mf: "mergedFrame st = Some mf"
  shows "\<exists>st'. mergeNextFrame env st = Inr (True, st')
     \<and> reader st' = r' \<and> frame_limit st' = frame_limit st
     \<and> previousFrame st' = Some frame \<and> mergedFrame st' \<noteq> None
     \<and> movements st' = map (\<lambda>m. vec_add m (fst (snd (alignFrame env previous frame)))) (movements st)
          @ [fst (snd (alignFrame env previous frame))]
     \<and> length (points (movementPath st')) = Suc (length (points (movementPath st)))
     \<and> length (lines (movementPath st'))
          = (if length (movements st) \<ge> 1 then Suc (length (lines (movementPath st)))
             else length (lines (movementPath st)))
     \<and> timeUsages (plot st') = timeUsages (plot st) @ [elapsed env previous frame]
     \<and> rmses (plot st') = rmses (plot st) @ [inlier_rmse (matcher env previous frame)]
     \<and> fitnesses (plot st') = fitnesses (plot st) @ [fitness (matcher env previous frame)]
     \<and> distances (plot st') = distances (plot st)
          @ [sqrt (vec_dot (fst (snd (alignFrame env previous frame)))
                           (fst (snd (alignFrame env previous frame))))]"
  using assms unfolding mergeNextFrame_def
  by (auto simp: Let_def alignFrame_def transform_def split: prod.splits)

lemma mergeNextFrame_None:
  assumes "fst (nextFrame env True (reader st)) = None"
  shows "mergeNextFrame env st = Inr (False, st\<lparr>reader := snd (nextFrame env True (reader st))\<rparr>)"
  using assms unfolding mergeNextFrame_def
  by (auto split: prod.splits)

lemma merge_loop_yields:
  assumes "yields (nextFrame env True) (reader st) fs"
    and "frame_limit st \<le> 1"
    and "previousFrame st \<noteq> None" and "mergedFrame st \<noteq> None"
    and "length (points (movementPath st)) = length (movements st)"
    and "length (lines (movementPath st)) = length (movements st) - 1"
  shows "\<exists>st'. merge_loop env st = Some (Inr st')
     \<and> length (movements st') = length (movements st) + length fs
     \<and> length (points (movementPath st')) = length (movements st')
     \<and> length (lines (movementPath st')) = length (movements st') - 1"
  using assms
proof (induction fs arbitrary: st)
  case Nil
  then have "fst (nextFrame env True (reader st)) = None" by simp
  from mergeNextFrame_None [OF this] Nil show ?case
    by (subst merge_loop.simps) simp
next
  case (Cons f fs)
  from Cons.prems(1) have nf: "nextFrame env True (reader st) = (Some f, snd (nextFrame env True (reader st)))"
    and rest: "yields (nextFrame env True) (snd (nextFrame env True (reader st))) fs"
    by (simp_all add: prod_eq_iff)
  from Cons.prems(3,4) obtain previous mf where
    prev: "previousFrame st = Some previous" and mf: "mergedFrame st = Some mf" by auto
  from mergeNextFrame_Some [OF nf prev mf]
  obtain st1 where step: "mergeNextFrame env st = Inr (True, st1)"
    and rd: "reader st1 = snd (nextFrame env True (reader st))"
    and fl: "frame_limit st1 = frame_limit st"
    and pf: "previousFrame st1 \<noteq> None" and mg: "mergedFrame st1 \<noteq> None"
    and mv: "length (movements st1) = Suc (length (movements st))"
    and pts: "length (points (movementPath st1)) = Suc (length (points (movementPath st)))"
    and lns: "length (lines (movementPath st1))
          = (if length (movements st) \<ge> 1 then Suc (length (lines (movementPath st)))
             else length (lines (movementPath st)))"
    by auto
  have unfold: "merge_loop env st = merge_loop env st1"
    using step fl Cons.prems(2) by (subst merge_loop.simps) simp
  have p5: "length (points (movementPath st1)) = length (movements st1)"
    using pts mv Cons.prems(5) by simp
  have p6: "length (lines (movementPath st1)) = length (movements st1) - 1"
    using lns mv Cons.prems(6) by (cases "length (movements st)") simp_all
  from rest rd have y1: "yields (nextFrame env True) (reader st1) fs" by simp
  from fl Cons.prems(2) have fl1: "frame_limit st1 \<le> 1" by simp
  from Cons.IH [OF y1 fl1 pf mg p5 p6] unfold mv show ?case
    by auto
qed

lemma navigateThroughFile_yields:
  assumes "readFrame env 0 True (reader st) = (Some m, r1)"
    and "readFrame env 0 True r1 = (Some p, r2)"
    and "yields (nextFrame env True) r2 fs"
    and "frame_limit st \<le> 1"
  shows "\<exists>st'. navigateThroughFile env st = Some (Inr st')
     \<and> length (movements st') = length fs
     \<and> length (points (movementPath st')) = length fs
     \<and> length (lines (movementPath st')) = length fs - 1"
proof -
  let ?st0 = "st\<lparr>reader := r2, movements := [], plot := empty_plot,
                    movementPath := empty_line_set,
                    mergedFrame := Some m, previousFrame := Some p\<rparr>"
  have run: "navigateThroughFile env st = merge_loop env ?st0"
    using assms(1,2) by (simp add: navigateThroughFile_def)
  have "\<exists>st'. merge_loop env ?st0 = Some (Inr st')
     \<and> length (movements st') = length (movements ?st0) + length fs
     \<and> length (points (movementPath st')) = length (movements st')
     \<and> length (lines (movementPath st')) = length (movements st') - 1"
    by (rule merge_loop_yields) (use assms in \<open>simp_all add: empty_line_set_def\<close>)
  then obtain st' where "merge_loop env ?st0 = Some (Inr st')"
    and "length (movements st') = length fs"
    and "length (points (movementPath st')) = length (movements st')"
    and "length (lines (movementPath st')) = length (movements st') - 1"
    by auto
  then show ?thesis using run by auto
qed

lemma fill_prepared_first:
  "fill_prepared 0 (f # fs) [] = (Some f, fs, [f])"
  "fill_prepared 0 fs [f] = (Some f, fs, [f])"
  by (cases fs; simp)+

lemma yields_cached_nextFrame:
  "pending r = fs \<Longrightarrow> yields (cached_nextFrame rv) r fs"
  by (induction fs arbitrary: r) (simp_all add: cached_nextFrame_def)

text \<open>
  Claim C1, as amended. With the reader that delivers every frame once, a fresh reader
  over \<open>N \<ge> 1\<close> frames and no frame limit (a limit of at most 1 is none), the run ends
  without an error; the first frame only seeds the reference, each further frame is
  aligned and gives one position, so there are \<open>N - 1\<close> movements and path points, and
  \<open>N - 2\<close> line segments (none for \<open>N = 1\<close>): one segment less than positions as soon as
  there is a position.
\<close>

theorem navigateThroughFile_positions_one_less_than_frames:
  assumes "uses_cached_reader env"
    and "pending (reader st) = frames" and "prepared (reader st) = []"
    and "frames \<noteq> []"
    and "frame_limit st \<le> 1"
  shows "\<exists>st'. navigateThroughFile env st = Some (Inr st')
     \<and> length (movements st') = length frames - 1
     \<and> length (points (movementPath st')) = length frames - 1
     \<and> length (lines (movementPath st')) = length frames - 2"
proof -
  from assms(4) obtain f fs where frames: "frames = f # fs" by (cases frames) auto
  let ?r1 = "(reader st)\<lparr>pending := fs, prepared := [f]\<rparr>"
  from assms(1) have rf: "readFrame env = cached_readFrame" and nf: "nextFrame env = cached_nextFrame"
    by (simp_all add: uses_cached_reader_def)
  have s1: "readFrame env 0 True (reader st) = (Some f, ?r1)"
    using assms(2,3) frames by (simp add: rf cached_readFrame_def fill_prepared_first)
  have s2: "readFrame env 0 True ?r1 = (Some f, ?r1)"
    by (simp add: rf cached_readFrame_def fill_prepared_first)
  have y: "yields (nextFrame env True) ?r1 fs"
    unfolding nf by (rule yields_cached_nextFrame) simp
  from navigateThroughFile_yields [OF s1 s2 y assms(5)] frames show ?thesis
    by simp
qed

text \<open>
  Claim C1 as stated (as many positions as frames) fails: over a source of one frame the
  run ends with no position at all, the one frame having seeded the reference.
\<close>

theorem one_frame_gives_no_position_counterexample:
  "navigateThroughFile env_c nav_one = Some (Inr nav_one_end)
   \<and> length (pending (reader nav_one)) = 1
   \<and> length (movements nav_one_end) = 0
   \<and> length (points (movementPath nav_one_end)) = 0"
proof -
  have seed: "cached_readFrame 0 True \<lparr>pending = [frame_a], prepared = []\<rparr>
                = (Some frame_a, \<lparr>pending = [], prepared = [frame_a]\<rparr>)"
    "cached_readFrame 0 True \<lparr>pending = [], prepared = [frame_a]\<rparr>
                = (Some frame_a, \<lparr>pending = [], prepared = [frame_a]\<rparr>)"
    by (simp_all add: cached_readFrame_def)
  have run: "navigateThroughFile env_c nav_one = Some (Inr nav_one_end)"
    unfolding navigateThroughFile_def
    by (subst merge_loop.simps)
       (simp add: env_c_def nav_one_def nav_one_end_def seed mergeNextFrame_def
          cached_nextFrame_def empty_plot_def empty_line_set_def)
  then show ?thesis
    by (simp add: nav_one_def nav_one_end_def empty_line_set_def)
qed

text \<open>
  Claim C3. A step of relative mode keeps the distance between any two of the positions
  recorded before it: each of them is moved by the same new movement.
\<close>

theorem mergeNextFrame_preserves_distances:
  assumes "mergeNextFrame env st = Inr (b, st')"
    and "i < length (movements st)" and "j < length (movements st)"
  shows "dist3 (movements st' ! i) (movements st' ! j)
           = dist3 (movements st ! i) (movements st ! j)"
proof -
  from mergeNextFrame_cases [OF assms(1)] show ?thesis
  proof
    assume "b = False \<and> st' = st\<lparr>reader := snd (nextFrame env True (reader st))\<rparr>
            \<and> fst (nextFrame env True (reader st)) = None"
    then show ?thesis by simp
  next
    assume "\<exists>frame previous mf. b = True
            \<and> nextFrame env True (reader st) = (Some frame, reader st')
            \<and> previousFrame st = Some previous \<and> mergedFrame st = Some mf
            \<and> movements st' = map (\<lambda>m. vec_add m (fst (snd (alignFrame env previous frame)))) (movements st)
                 @ [fst (snd (alignFrame env previous frame))]"
    then obtain mv where "movements st' = map (\<lambda>m. vec_add m mv) (movements st) @ [mv]"
      by blast
    with assms(2,3) show ?thesis
      by (simp add: nth_append dist3_vec_add)
  qed
qed

text \<open>
  Claim C5. Whenever the reader delivers a frame (empty or not), the step returns True
  without an error, whatever registration the matcher returns: one movement and one path
  point are appended, and the time, the residual, the fitness and the length of the
  movement are recorded. No branch of the step reads the fitness. The matcher is a total
  function here: that it returns for every pair of clouds is its contract.
\<close>

theorem mergeNextFrame_appends_whatever_the_fitness:
  assumes "nextFrame env True (reader st) = (Some frame, r')"
    and "previousFrame st = Some previous" and "mergedFrame st = Some mf"
  shows "\<exists>st'. mergeNextFrame env st = Inr (True, st')
     \<and> length (movements st') = Suc (length (movements st))
     \<and> length (points (movementPath st')) = Suc (length (points (movementPath st)))
     \<and> length (timeUsages (plot st')) = Suc (length (timeUsages (plot st)))
     \<and> rmses (plot st') = rmses (plot st) @ [inlier_rmse (matcher env previous frame)]
     \<and> fitnesses (plot st') = fitnesses (plot st) @ [fitness (matcher env previous frame)]
     \<and> distances (plot st') = distances (plot st)
          @ [sqrt (vec_dot (last (movements st')) (last (movements st')))]"
  using mergeNextFrame_Some [OF assms] by auto


theorem navigateThroughFile_positions_one_less_than_frames_witness:
  "uses_cached_reader env_c
   \<and> pending (reader nav_three) = [frame_a, frame_b, frame_a]
   \<and> prepared (reader nav_three) = []
   \<and> frame_limit nav_three \<le> 1
   \<and> (\<exists>st'. navigateThroughFile env_c nav_three = Some (Inr st')
        \<and> length (movements st') = 2
        \<and> length (points (movementPath st')) = 2
        \<and> length (lines (movementPath st')) = 1)"
proof -
  have h1: "uses_cached_reader env_c"
    by (simp add: uses_cached_reader_def env_c_def)
  have h2: "pending (reader nav_three) = [frame_a, frame_b, frame_a]"
    and h3: "prepared (reader nav_three) = []"
    and h5: "frame_limit nav_three \<le> 1"
    by (simp_all add: nav_three_def nav_one_def)
  have h4: "[frame_a, frame_b, frame_a] \<noteq> []" by simp
  from navigateThroughFile_positions_one_less_than_frames [OF h1 h2 h3 h4 h5] h1 h2 h3 h5
  show ?thesis by (simp add: numeral_2_eq_2)
qed

lemma mergeNextFrame_nav_b:
  "\<exists>st'. mergeNextFrame env_a nav_b = Inr (True, st')"
  using mergeNextFrame_Some [of env_a nav_b frame_b "[]" frame_a frame_a]
  by (auto simp: env_a_def nav_b_def pop_frame_def)

theorem mergeNextFrame_preserves_distances_witness:
  "\<exists>st'. mergeNextFrame env_a nav_b = Inr (True, st')
     \<and> (0::nat) < length (movements nav_b) \<and> (1::nat) < length (movements nav_b)
     \<and> dist3 (movements st' ! 0) (movements st' ! 1) = 5"
proof -
  from mergeNextFrame_nav_b obtain st' where step: "mergeNextFrame env_a nav_b = Inr (True, st')"
    by blast
  have i: "(0::nat) < length (movements nav_b)" and j: "(1::nat) < length (movements nav_b)"
    by (simp_all add: nav_b_def)
  have "sqrt (3 * 3 + 4 * 4) = (5::real)"
    by (rule real_sqrt_unique) simp_all
  then have "dist3 (movements nav_b ! 0) (movements nav_b ! 1) = 5"
    by (simp add: nav_b_def dist3_def vec_sub_def vec_dot_def)
  with mergeNextFrame_preserves_distances [OF step i j] step i j show ?thesis
    by auto
qed

theorem alignFrame_movement_is_translation_column_witness:
  "bottom_row (transformation (matcher env_a frame_a frame_b)) = (0, 0, 0, 1)
   \<and> fst (snd (alignFrame env_a frame_a frame_b)) = (1, 0, 0)"
proof -
  have h: "bottom_row (transformation (matcher env_a frame_a frame_b)) = (0, 0, 0, 1)"
    by (simp add: env_a_def shift_x_def bottom_row_def)
  from alignFrame_movement_is_translation_column [OF h] h show ?thesis
    by (simp add: env_a_def shift_x_def translation_column_def)
qed

theorem mergeNextFrame_appends_whatever_the_fitness_witness:
  "nextFrame env_a True (reader nav_c) = (Some empty_cloud, [])
   \<and> previousFrame nav_c = Some frame_a \<and> mergedFrame nav_c = Some frame_a
   \<and> fitness (matcher env_a frame_a empty_cloud) = 0
   \<and> (\<exists>st'. mergeNextFrame env_a nav_c = Inr (True, st')
        \<and> length (movements st') = 3
        \<and> fitnesses (plot st') = [0])"
proof -
  have h1: "nextFrame env_a True (reader nav_c) = (Some empty_cloud, [])"
    by (simp add: env_a_def nav_c_def pop_frame_def)
  have h2: "previousFrame nav_c = Some frame_a" and h3: "mergedFrame nav_c = Some frame_a"
    by (simp_all add: nav_c_def nav_b_def)
  have f: "fitness (matcher env_a frame_a empty_cloud) = 0"
    by (simp add: env_a_def)
  have p: "length (movements nav_c) = 2" "fitnesses (plot nav_c) = []"
    by (simp_all add: nav_c_def nav_b_def empty_plot_def)
  from mergeNextFrame_appends_whatever_the_fitness [OF h1 h2 h3] h1 h2 h3 f p
  show ?thesis by auto
qed

lemma mergeNextFrame_end_of_stream:
  assumes "fst (nextFrame env True (reader st)) = None"
  shows "mergeNextFrame env st = Inr (False, st\<lparr>reader := snd (nextFrame env True (reader st))\<rparr>)"
    and "merge_loop env st = Some (Inr (st\<lparr>reader := snd (nextFrame env True (reader st))\<rparr>))"
proof -
  show step: "mergeNextFrame env st = Inr (False, st\<lparr>reader := snd (nextFrame env True (reader st))\<rparr>)"
    using assms by (rule mergeNextFrame_None)
  show "merge_loop env st = Some (Inr (st\<lparr>reader := snd (nextFrame env True (reader st))\<rparr>))"
    using step by (subst merge_loop.simps) simp
qed

lemma merge_next_frame_never_returns:
  "merge_next_frame env st \<noteq> Inr res"
  by (simp add: merge_next_frame_def debug_visualization_def split: sum.splits prod.splits option.splits)

text \<open>
  Claim C2. In relative mode a frame of None makes the step return False and the loop end
  without an error (\<open>mergeNextFrame_end_of_stream\<close>). In absolute mode the step never
  returns (\<open>merge_next_frame_never_returns\<close>): at the end of the stream, with the path of
  the independent source set, it raises NameError before the test for None.
\<close>

theorem merge_next_frame_raises_at_end_of_stream:
  "reader_next_frame env_a (remove_vehicle_arg abs_eos) (reader abs_eos) = Inr (None, [])
   \<and> merge_next_frame env_a abs_eos = Inl NameError"
  by (simp add: merge_next_frame_def debug_visualization_def env_a_def abs_eos_def abs_a_def
      pop_frame_def)

section \<open>Absolute mode\<close>

lemma translate_twice:
  "translate (0, 0, 40) (translate offset c)
     = c\<lparr>x_utm := x_utm c - fst offset, y_utm := y_utm c - fst (snd offset),
          alt := alt c - snd (snd offset) - 40\<rparr>"
  by (cases offset) (simp add: translate_def)

lemma read_actual_coordinates_result:
  assumes "read_actual_coordinates env st = Inr st'"
  shows "actual_coordinates st'
           = map (\<lambda>c. c\<lparr>x_utm := x_utm c - fst (full_point_cloud_offset st),
                          y_utm := y_utm c - fst (snd (full_point_cloud_offset st)),
                          alt := alt c - snd (snd (full_point_cloud_offset st)) - 40\<rparr>)
               (get_coordinates env False (reader st))"
  using assms unfolding read_actual_coordinates_def translate_actual_coordinates_def
  by (auto simp: Let_def translate_twice split: list.splits)

text \<open>
  Claim C6. The comment in the source says that the positions of the independent source
  are moved with the same offset as the point cloud, and the cloud is moved by the offset
  alone; but the loop translates every position a second time, by \<open>[0, 0, 40]\<close>. For the
  offset \<open>(1, 2, 3)\<close> and a position at \<open>(100, 50)\<close> with the altitude 200 the code
  gives the altitude 157, where the translation by the offset alone gives 197.
\<close>

theorem translate_actual_coordinates_lowers_altitude_by_40_more:
  "full_point_cloud_offset abs_a = (1, 2, 3)
   \<and> get_coordinates env_a False (reader abs_a) = [row_a]
   \<and> translate_actual_coordinates (1, 2, 3) [row_a]
       = [row_a\<lparr>x_utm := 99, y_utm := 48, alt := 157\<rparr>]
   \<and> map (translate (1, 2, 3)) [row_a] = [row_a\<lparr>x_utm := 99, y_utm := 48, alt := 197\<rparr>]"
  by (simp add: translate_actual_coordinates_def translate_def row_a_def abs_a_def env_a_def)

lemma saved_paths:
  "endswith saved_cloud_path ''.cloud''" "saved_pcd_path \<noteq> saved_cloud_path"
  by (simp_all add: endswith_def saved_cloud_path_def saved_pcd_path_def save_directory_def)

text \<open>
  Claim C7. After a load from a raw point-cloud file (a path that does not end in
  \<open>.cloud\<close>) has succeeded, a load from the sidecar file that it wrote succeeds with
  the same offset and the same cloud, hence the same number of points, and leaves the
  files as they are. Files return what was written, so the rounding of a file format is
  outside the model.
\<close>

theorem load_point_cloud_reload_from_sidecar:
  assumes "\<not> endswith path ''.cloud''"
    and "load_point_cloud path fs = Inr ((offset, cloud), fs')"
  shows "load_point_cloud saved_cloud_path fs' = Inr ((offset, cloud), fs')"
proof -
  let ?ps = "points (read_point_cloud fs path)"
  let ?moved = "\<lparr>points = map (\<lambda>p. vec_sub p offset) ?ps, colors = []\<rparr>"
  from assms have ne: "?ps \<noteq> []"
    and off: "offset = vec_add (amin ?ps) (vec_half (vec_sub (amax ?ps) (amin ?ps)))"
    and cl: "cloud = paint_uniform_color (3 / 10, 6 / 10, 1) ?moved"
    and fs': "fs' = (fs(saved_pcd_path := Some (PointCloudFile ?moved)))
                     (saved_cloud_path := Some (SidecarFile offset saved_pcd_path))"
    by (auto simp: load_point_cloud_def Let_def split: if_splits)
  have side: "fs' saved_cloud_path = Some (SidecarFile offset saved_pcd_path)"
    by (simp add: fs')
  have pcd: "read_point_cloud fs' saved_pcd_path = ?moved"
    using saved_paths(2) by (simp add: fs' read_point_cloud_def)
  show ?thesis
    using saved_paths(1) side pcd cl by (simp add: load_point_cloud_def)
qed

theorem load_point_cloud_reload_from_sidecar_witness:
  "\<not> endswith ''raw.pcd'' ''.cloud''
   \<and> (\<exists>cloud fs'. load_point_cloud ''raw.pcd'' files_a = Inr (((12, 20, 33), cloud), fs')
        \<and> load_point_cloud saved_cloud_path fs' = Inr (((12, 20, 33), cloud), fs')
        \<and> points cloud = [(- 2, 0, - 3), (2, 0, 3)])"
proof -
  have h1: "\<not> endswith ''raw.pcd'' ''.cloud''"
    by (simp add: endswith_def)
  have "\<exists>cloud fs'. load_point_cloud ''raw.pcd'' files_a = Inr (((12, 20, 33), cloud), fs')
      \<and> points cloud = [(- 2, 0, - 3), (2, 0, 3)]"
    using h1
    by (simp add: load_point_cloud_def files_a_def read_point_cloud_def Let_def amin_def amax_def
        vec_add_def vec_sub_def vec_half_def paint_uniform_color_def)
  then obtain cloud fs' where l: "load_point_cloud ''raw.pcd'' files_a = Inr (((12, 20, 33), cloud), fs')"
    and p: "points cloud = [(- 2, 0, - 3), (2, 0, 3)]" by blast
  from load_point_cloud_reload_from_sidecar [OF h1 l] h1 l p show ?thesis by blast
qed

lemma navigation_loop_raises:
  "navigation_loop env (Suc n) st \<noteq> Inr st'"
  using merge_next_frame_never_returns [of env st]
  by (cases "merge_next_frame env st") auto

lemma read_actual_coordinates_keeps:
  assumes "read_actual_coordinates env st = Inr s1"
  shows "frame_limit s1 = frame_limit st" and "movements s1 = movements st"
  using assms unfolding read_actual_coordinates_def
  by (auto simp: Let_def split: list.splits)

lemma navigate_through_file_returns_only_without_steps:
  assumes "navigate_through_file env sbet st = Inr st'"
  shows "frame_limit st \<le> 0 \<and> movements st' = []"
proof -
  let ?st0 = "st\<lparr>reader := skip_initial_frames env (reader st),
                   movements := [], movement_path := empty_line_set\<rparr>"
  let ?prep = "if sbet then read_actual_coordinates env ?st0 else Inr ?st0"
  have run: "navigate_through_file env sbet st =
     (case ?prep of
           Inl e \<Rightarrow> Inl e
         | Inr st1 \<Rightarrow>
             (case navigation_loop env (nat (frame_limit st1))
                     (st1\<lparr>vis := False, merged_frame := empty_cloud, plot := empty_plot\<rparr>) of
                Inl e \<Rightarrow> Inl e
              | Inr st2 \<Rightarrow> Inr (ensure_merged_frame_is_downsampled env st2)))"
    by (simp only: navigate_through_file_def Let_def)
  show ?thesis
  proof (cases ?prep)
    case (Inl e)
    with run assms show ?thesis by simp
  next
    case (Inr s1)
    have fl: "frame_limit s1 = frame_limit st" and mv: "movements s1 = []"
    proof -
      show "frame_limit s1 = frame_limit st"
      proof (cases sbet)
        case True
        with Inr have "read_actual_coordinates env ?st0 = Inr s1" by simp
        from read_actual_coordinates_keeps(1) [OF this] show ?thesis by simp
      next
        case False
        with Inr show ?thesis by auto
      qed
      show "movements s1 = []"
      proof (cases sbet)
        case True
        with Inr have "read_actual_coordinates env ?st0 = Inr s1" by simp
        from read_actual_coordinates_keeps(2) [OF this] show ?thesis by simp
      next
        case False
        with Inr show ?thesis by auto
      qed
    qed
    let ?s = "s1\<lparr>vis := False, merged_frame := empty_cloud, plot := empty_plot\<rparr>"
    show ?thesis
    proof (cases "nat (frame_limit s1)")
      case 0
      then have "navigation_loop env (nat (frame_limit s1)) ?s = Inr ?s" by simp
      with run Inr assms have "st' = ensure_merged_frame_is_downsampled env ?s"
        by simp
      with mv have "movements st' = []"
        by (simp add: ensure_merged_frame_is_downsampled_def)
      with 0 fl show ?thesis by simp
    next
      case (Suc n)
      show ?thesis
      proof (cases "navigation_loop env (Suc n) ?s")
        case (Inl e)
        with run Inr Suc assms show ?thesis by simp
      next
        case (Inr s2)
        with navigation_loop_raises [of env n ?s s2] show ?thesis by simp
      qed
    qed
  qed
qed


end
